theory Spec2Isabelle
  imports Complex_Main
begin

section \<open>Data model of the Kraken gateway (backend/brokers/kraken.py)\<close>

text \<open>
  Python's \<^verbatim>\<open>Decimal\<close> values are modelled as rationals: every decimal numeral is a
  rational and the four operations are exact. The context precision of the decimal module
  (28 significant digits by default) is not modelled.
\<close>

type_synonym decimal = rat

text \<open>
  The exceptions the modelled code can raise. The two \<^verbatim>\<open>ValueError\<close>s of the gateway
  are kept apart by constructor: \<open>Leverage_exceeds l m\<close> is the one of
  \<^verbatim>\<open>place_order\<close> ("Leverage l exceeds maximum allowed m"), \<open>No_price_data p\<close> the one
  of \<^verbatim>\<open>execute_strategy\<close>. \<open>BrokerError\<close> stands for whatever \<^verbatim>\<open>_private_request\<close>
  re-raises (transport failure, HTTP status, or an error payload of the exchange).
\<close>

datatype py_error =
    Leverage_exceeds int int
  | No_price_data string
  | Strategy_not_found string
  | TypeError
  | IndexError
  | KeyError
  | AttributeError
  | InvalidOperation
  | ZeroDivisionError
  | JSONDecodeError
  | ConnectionClosed
  | BrokerError string

text \<open>The body of an \<^verbatim>\<open>AddOrder\<close> request: the dictionary \<^verbatim>\<open>data\<close> of \<^verbatim>\<open>place_order\<close>.
  The key \<^verbatim>\<open>price\<close> is optional; the \<^verbatim>\<open>str\<close> conversions are left out.\<close>

record order_data =
  od_pair :: string
  od_type :: string
  od_ordertype :: string
  od_volume :: decimal
  od_leverage :: int
  od_price :: "decimal option"
  od_close_ordertype :: string
  od_close_price :: decimal
  od_close_price2 :: decimal

record candle =
  c_time :: int
  c_open :: rat
  c_high :: rat
  c_low :: rat
  c_close :: rat
  c_vwap :: rat
  c_volume :: rat
  c_count :: int

datatype request =
    AddOrder order_data
  | Balance
  | OpenPositions
  | OHLC string int

text \<open>
  The \<^verbatim>\<open>result\<close> member of an answer of the exchange. A balance maps an asset to an
  amount in text; \<open>None\<close> is an amount that \<^verbatim>\<open>Decimal(val)\<close> rejects.
\<close>

datatype response =
    AddOrderResult "string list"
  | BalanceResult "(string \<times> decimal option) list"
  | OpenPositionsResult "string list"
  | OHLCResult "(string \<times> candle list) list"

text \<open>
  The exchange is outside the program: it is a parameter that answers a request, given the
  requests issued before (so its answers may change over time).
\<close>

type_synonym exchange = "request list \<Rightarrow> request \<Rightarrow> py_error + response"

record active_trade =
  at_pair :: string
  at_type :: string
  at_side :: string
  at_volume :: decimal
  at_price :: "decimal option"
  at_stop_loss :: decimal
  at_take_profit :: decimal

record quote =
  q_price :: decimal
  q_volume :: decimal

text \<open>JSON values as \<^verbatim>\<open>json.loads\<close> returns them.\<close>

datatype json =
    JNull
  | JBool bool
  | JNum rat
  | JStr string
  | JArr "json list"
  | JObj "(string \<times> json) list"

text \<open>
  The state of a \<^verbatim>\<open>KrakenAPI\<close> object. \<open>requests\<close> is not a field of the class: it is
  the log of the requests sent with \<^verbatim>\<open>_private_request\<close>, oldest first, kept to state
  what reaches the network. \<open>ws_open\<close> tells whether the feed connection of
  \<^verbatim>\<open>start_websocket\<close> is open; \<open>running_flag\<close> is \<^verbatim>\<open>_running\<close>. Credentials, the
  HTTP client, timestamps and the containers the class never writes (positions, order
  book, trade history, queues) are left out.
\<close>

record KrakenAPI =
  active_trades :: "string \<rightharpoonup> active_trade"
  price_cache :: "json \<rightharpoonup> quote"
  max_position_size :: decimal
  max_leverage :: int
  stop_loss_pct :: decimal
  take_profit_pct :: decimal
  ws_open :: bool
  running_flag :: bool
  requests :: "request list"

definition KrakenAPI_init :: KrakenAPI where
  "KrakenAPI_init =
     \<lparr> active_trades = Map.empty,
       price_cache = Map.empty,
       max_position_size = 1 / 10,
       max_leverage = 5,
       stop_loss_pct = 2 / 100,
       take_profit_pct = 6 / 100,
       ws_open = False,
       running_flag = False,
       requests = [] \<rparr>"

section \<open>Requests and orders\<close>

text \<open>\<^verbatim>\<open>_private_request\<close>: one request to the exchange. Signing and the nonce are left out.\<close>

definition private_request :: "exchange \<Rightarrow> KrakenAPI \<Rightarrow> request \<Rightarrow> (py_error + response) \<times> KrakenAPI" where
  "private_request ex k req = (ex (requests k) req, k\<lparr>requests := requests k @ [req]\<rparr>)"

definition get_balance :: "exchange \<Rightarrow> KrakenAPI \<Rightarrow> (py_error + response) \<times> KrakenAPI" where
  "get_balance ex k = private_request ex k Balance"

definition get_open_positions :: "exchange \<Rightarrow> KrakenAPI \<Rightarrow> (py_error + response) \<times> KrakenAPI" where
  "get_open_positions ex k = private_request ex k OpenPositions"

text \<open>
  \<^verbatim>\<open>place_order\<close>. With \<^verbatim>\<open>price = None\<close> the product \<^verbatim>\<open>price * (1 - self.stop_loss_pct)\<close>
  raises \<^verbatim>\<open>TypeError\<close>. A \<^verbatim>\<open>Decimal\<close> is true when it is not zero. Every side other than
  \<^verbatim>\<open>'buy'\<close> takes the \<^verbatim>\<open>else\<close> branch.
\<close>

definition stop_loss_of :: "KrakenAPI \<Rightarrow> string \<Rightarrow> decimal \<Rightarrow> decimal" where
  "stop_loss_of k side p =
     (if side = ''buy'' then p * (1 - stop_loss_pct k) else p * (1 + stop_loss_pct k))"

definition take_profit_of :: "KrakenAPI \<Rightarrow> string \<Rightarrow> decimal \<Rightarrow> decimal" where
  "take_profit_of k side p =
     (if side = ''buy'' then p * (1 + take_profit_pct k) else p * (1 - take_profit_pct k))"

definition order_request :: "KrakenAPI \<Rightarrow> string \<Rightarrow> string \<Rightarrow> string \<Rightarrow> decimal \<Rightarrow> decimal \<Rightarrow> int \<Rightarrow> order_data" where
  "order_request k pair order_type side volume p leverage =
     \<lparr> od_pair = pair,
       od_type = side,
       od_ordertype = order_type,
       od_volume = volume,
       od_leverage = leverage,
       od_price = (if p \<noteq> 0 \<and> order_type = ''limit'' then Some p else None),
       od_close_ordertype = ''stop-loss-limit'',
       od_close_price = stop_loss_of k side p,
       od_close_price2 = take_profit_of k side p \<rparr>"

definition track_order :: "KrakenAPI \<Rightarrow> string \<Rightarrow> string \<Rightarrow> string \<Rightarrow> string \<Rightarrow> decimal \<Rightarrow> decimal \<Rightarrow> KrakenAPI \<Rightarrow> KrakenAPI" where
  "track_order k0 order_id pair order_type side volume p k =
     k\<lparr>active_trades := (active_trades k)(order_id \<mapsto>
          \<lparr> at_pair = pair,
            at_type = order_type,
            at_side = side,
            at_volume = volume,
            at_price = Some p,
            at_stop_loss = stop_loss_of k0 side p,
            at_take_profit = take_profit_of k0 side p \<rparr>)\<rparr>"

definition place_order ::
  "exchange \<Rightarrow> KrakenAPI \<Rightarrow> string \<Rightarrow> string \<Rightarrow> string \<Rightarrow> decimal \<Rightarrow> decimal option \<Rightarrow> int
     \<Rightarrow> (py_error + response) \<times> KrakenAPI" where
  "place_order ex k pair order_type side volume price leverage =
     (if leverage > max_leverage k then (Inl (Leverage_exceeds leverage (max_leverage k)), k)
      else case price of
        None \<Rightarrow> (Inl TypeError, k)
      | Some p \<Rightarrow>
          (case private_request ex k (AddOrder (order_request k pair order_type side volume p leverage)) of
             (Inl e, k1) \<Rightarrow> (Inl e, k1)
           | (Inr result, k1) \<Rightarrow>
               (case result of
                  AddOrderResult [] \<Rightarrow> (Inl IndexError, k1)
                | AddOrderResult (order_id # _) \<Rightarrow>
                    (Inr result, track_order k order_id pair order_type side volume p k1)
                | _ \<Rightarrow> (Inl KeyError, k1))))"

text \<open>
  \<^verbatim>\<open>calculate_optimal_position_size\<close>. \<^verbatim>\<open>sum\<close> over the amounts fails with the first
  amount \<^verbatim>\<open>Decimal\<close> rejects; a division by a zero stop-loss percentage raises
  (\<^verbatim>\<open>InvalidOperation\<close> for 0/0, the decimal module's \<^verbatim>\<open>DivisionByZero\<close>, a
  \<^verbatim>\<open>ZeroDivisionError\<close>, otherwise).
\<close>

fun decimals :: "decimal option list \<Rightarrow> decimal list option" where
  "decimals [] = Some []"
| "decimals (None # vs) = None"
| "decimals (Some v # vs) = (case decimals vs of None \<Rightarrow> None | Some ws \<Rightarrow> Some (v # ws))"

definition total_equity_of :: "(string \<times> decimal option) list \<Rightarrow> py_error + decimal" where
  "total_equity_of balance =
     (case decimals (map snd balance) of None \<Rightarrow> Inl InvalidOperation | Some vs \<Rightarrow> Inr (sum_list vs))"

definition decimal_div :: "decimal \<Rightarrow> decimal \<Rightarrow> py_error + decimal" where
  "decimal_div a b =
     (if b = 0 then (if a = 0 then Inl InvalidOperation else Inl ZeroDivisionError) else Inr (a / b))"

definition position_size :: "KrakenAPI \<Rightarrow> decimal \<Rightarrow> decimal \<Rightarrow> py_error + decimal" where
  "position_size k total_equity risk_per_trade =
     (let max_position = total_equity * max_position_size k
      in case decimal_div (total_equity * risk_per_trade) (stop_loss_pct k) of
           Inl e \<Rightarrow> Inl e
         | Inr risk_based_size \<Rightarrow> Inr (min max_position risk_based_size))"

definition calculate_optimal_position_size ::
  "exchange \<Rightarrow> KrakenAPI \<Rightarrow> string \<Rightarrow> decimal \<Rightarrow> (py_error + decimal) \<times> KrakenAPI" where
  "calculate_optimal_position_size ex k pair risk_per_trade =
     (case get_balance ex k of
        (Inl e, k1) \<Rightarrow> (Inl e, k1)
      | (Inr (BalanceResult balance), k1) \<Rightarrow>
          (case total_equity_of balance of
             Inl e \<Rightarrow> (Inl e, k1)
           | Inr total_equity \<Rightarrow> (position_size k1 total_equity risk_per_trade, k1))
      | (Inr _, k1) \<Rightarrow> (Inl AttributeError, k1))"

section \<open>Indicators (analyze_market)\<close>

text \<open>
  The columns of the pandas frame hold 64-bit floats. They are modelled as exact rationals
  extended with the two infinities and NaN, with the IEEE 754 rules for the special values;
  rounding and the sign of zero are not modelled (a division of a positive number by zero
  gives \<open>PInf\<close>; by a negative zero it would give \<open>NInf\<close>, and the RSI computed from
  either is the same).
\<close>

datatype float64 = Num rat | PInf | NInf | NaN

fun fl_neg :: "float64 \<Rightarrow> float64" where
  "fl_neg (Num a) = Num (- a)"
| "fl_neg PInf = NInf"
| "fl_neg NInf = PInf"
| "fl_neg NaN = NaN"

fun fl_add :: "float64 \<Rightarrow> float64 \<Rightarrow> float64" where
  "fl_add (Num a) (Num b) = Num (a + b)"
| "fl_add NaN _ = NaN"
| "fl_add _ NaN = NaN"
| "fl_add PInf NInf = NaN"
| "fl_add NInf PInf = NaN"
| "fl_add PInf _ = PInf"
| "fl_add _ PInf = PInf"
| "fl_add NInf _ = NInf"
| "fl_add _ NInf = NInf"

definition fl_sub :: "float64 \<Rightarrow> float64 \<Rightarrow> float64" where
  "fl_sub x y = fl_add x (fl_neg y)"

fun fl_div :: "float64 \<Rightarrow> float64 \<Rightarrow> float64" where
  "fl_div (Num a) (Num b) =
     (if b \<noteq> 0 then Num (a / b) else if 0 < a then PInf else if a < 0 then NInf else NaN)"
| "fl_div NaN _ = NaN"
| "fl_div _ NaN = NaN"
| "fl_div (Num a) _ = Num 0"
| "fl_div PInf (Num b) = (if 0 \<le> b then PInf else NInf)"
| "fl_div NInf (Num b) = (if 0 \<le> b then NInf else PInf)"
| "fl_div _ _ = NaN"

text \<open>Comparisons: every comparison with NaN is false.\<close>

fun fl_less :: "float64 \<Rightarrow> float64 \<Rightarrow> bool" where
  "fl_less (Num a) (Num b) = (a < b)"
| "fl_less NaN _ = False"
| "fl_less _ NaN = False"
| "fl_less NInf NInf = False"
| "fl_less NInf _ = True"
| "fl_less PInf _ = False"
| "fl_less _ PInf = True"
| "fl_less _ NInf = False"

text \<open>\<^verbatim>\<open>Series.diff()\<close>: the first entry is NaN, each later one the difference to its predecessor.\<close>

fun diff :: "float64 list \<Rightarrow> float64 list" where
  "diff [] = []"
| "diff (x # xs) = NaN # map2 (\<lambda>a b. fl_sub b a) (x # xs) xs"

text \<open>
  \<^verbatim>\<open>Series.rolling(window=w).mean()\<close>: NaN until the window is full (and when the window
  holds a value that is not a number), then the mean of the last \<open>w\<close> entries.
\<close>

fun the_num :: "float64 \<Rightarrow> rat option" where
  "the_num (Num a) = Some a"
| "the_num _ = None"

fun nums :: "float64 list \<Rightarrow> rat list option" where
  "nums [] = Some []"
| "nums (x # xs) =
     (case the_num x of None \<Rightarrow> None
      | Some a \<Rightarrow> (case nums xs of None \<Rightarrow> None | Some as \<Rightarrow> Some (a # as)))"

definition fl_mean :: "float64 list \<Rightarrow> float64" where
  "fl_mean ws = (case nums ws of None \<Rightarrow> NaN | Some as \<Rightarrow> Num (sum_list as / of_nat (length as)))"

definition rolling_mean :: "nat \<Rightarrow> float64 list \<Rightarrow> float64 list" where
  "rolling_mean w xs =
     map (\<lambda>i. if i + 1 < w then NaN else fl_mean (take w (drop (i + 1 - w) xs))) [0..<length xs]"

text \<open>
  \<^verbatim>\<open>Series.ewm(span=n, adjust=False).mean()\<close>: seeded with the first entry, then
  \<open>y\<^sub>t = (1 - \<alpha>) y\<^sub>t\<^sub>-\<^sub>1 + \<alpha> x\<^sub>t\<close> with \<open>\<alpha> = 2 / (n + 1)\<close>. The series here hold
  numbers only.
\<close>

fun ewm_from :: "rat \<Rightarrow> rat \<Rightarrow> rat list \<Rightarrow> rat list" where
  "ewm_from \<alpha> y [] = []"
| "ewm_from \<alpha> y (x # xs) = (let y' = (1 - \<alpha>) * y + \<alpha> * x in y' # ewm_from \<alpha> y' xs)"

fun ewm_mean :: "nat \<Rightarrow> rat list \<Rightarrow> rat list" where
  "ewm_mean n [] = []"
| "ewm_mean n (x # xs) = x # ewm_from (2 / (of_nat n + 1)) x xs"

text \<open>The gain and loss columns: \<^verbatim>\<open>delta.where(delta > 0, 0)\<close> and \<^verbatim>\<open>-delta.where(delta < 0, 0)\<close>.
  The NaN at the head of \<^verbatim>\<open>delta\<close> fails both tests and becomes 0.\<close>

definition gain_column :: "float64 list \<Rightarrow> float64 list" where
  "gain_column delta = map (\<lambda>d. if fl_less (Num 0) d then d else Num 0) delta"

definition loss_column :: "float64 list \<Rightarrow> float64 list" where
  "loss_column delta = map (\<lambda>d. fl_neg (if fl_less d (Num 0) then d else Num 0)) delta"

definition rsi_column :: "float64 list \<Rightarrow> float64 list" where
  "rsi_column closes =
     (let delta = diff closes;
          gain = rolling_mean 14 (gain_column delta);
          loss = rolling_mean 14 (loss_column delta);
          rs = map2 fl_div gain loss
      in map (\<lambda>r. fl_sub (Num 100) (fl_div (Num 100) (fl_add (Num 1) r))) rs)"

record analysis =
  trend :: string
  rsi :: float64
  macd :: float64
  signal_line :: float64

text \<open>The computation of \<^verbatim>\<open>analyze_market\<close> on the candles of the answer;
  \<^verbatim>\<open>df.iloc[-1]\<close> raises \<^verbatim>\<open>IndexError\<close> on an empty frame.\<close>

definition indicators :: "candle list \<Rightarrow> py_error + analysis" where
  "indicators cs =
     (let closes = map c_close cs;
          sma_20 = rolling_mean 20 (map Num closes);
          sma_50 = rolling_mean 50 (map Num closes);
          rsi_col = rsi_column (map Num closes);
          macd_col = map2 (\<lambda>a b. a - b) (ewm_mean 12 closes) (ewm_mean 26 closes);
          signal_col = ewm_mean 9 macd_col
      in if cs = [] then Inl IndexError
         else Inr \<lparr> trend = (if fl_less (last sma_50) (last sma_20) then ''bullish'' else ''bearish''),
                    rsi = last rsi_col,
                    macd = Num (last macd_col),
                    signal_line = Num (last signal_col) \<rparr>)"

definition analyze_market :: "exchange \<Rightarrow> KrakenAPI \<Rightarrow> string \<Rightarrow> int \<Rightarrow> (py_error + analysis) \<times> KrakenAPI" where
  "analyze_market ex k pair timeframe =
     (case private_request ex k (OHLC pair timeframe) of
        (Inl e, k1) \<Rightarrow> (Inl e, k1)
      | (Inr (OHLCResult ohlc), k1) \<Rightarrow>
          (case map_of ohlc pair of
             None \<Rightarrow> (Inl KeyError, k1)
           | Some cs \<Rightarrow> (indicators cs, k1))
      | (Inr _, k1) \<Rightarrow> (Inl KeyError, k1))"

section \<open>Strategy execution (execute_strategy)\<close>

text \<open>A strategy configuration; \<open>None\<close> is a key the dictionary does not hold, for the two
  keys read with \<^verbatim>\<open>get\<close> and a default.\<close>

record strategy_config =
  sc_type :: string
  sc_risk_per_trade :: "decimal option"
  sc_leverage :: "int option"
  sc_timeframe :: int

text \<open>The block "Strategy logic" of \<^verbatim>\<open>execute_strategy\<close>.\<close>

definition strategy_signal :: "analysis \<Rightarrow> strategy_config \<Rightarrow> string option" where
  "strategy_signal a cfg =
     (if sc_type cfg = ''trend_following'' then
        (if trend a = ''bullish'' \<and> fl_less (rsi a) (Num 70) then Some ''buy''
         else if trend a = ''bearish'' \<and> fl_less (Num 30) (rsi a) then Some ''sell''
         else None)
      else if sc_type cfg = ''mean_reversion'' then
        (if fl_less (rsi a) (Num 30) then Some ''buy''
         else if fl_less (Num 70) (rsi a) then Some ''sell''
         else None)
      else None)"

datatype strategy_result =
    Success string response analysis
  | No_action analysis

definition execute_strategy ::
  "exchange \<Rightarrow> KrakenAPI \<Rightarrow> string \<Rightarrow> strategy_config \<Rightarrow> (py_error + strategy_result) \<times> KrakenAPI" where
  "execute_strategy ex k pair cfg =
     (case analyze_market ex k pair 60 of
        (Inl e, k1) \<Rightarrow> (Inl e, k1)
      | (Inr a, k1) \<Rightarrow>
          (case price_cache k1 (JStr pair) of
             None \<Rightarrow> (Inl (No_price_data pair), k1)
           | Some q \<Rightarrow>
               if q_price q = 0 then (Inl (No_price_data pair), k1)
               else (case strategy_signal a cfg of
                  None \<Rightarrow> (Inr (No_action a), k1)
                | Some sig \<Rightarrow>
                    (case calculate_optimal_position_size ex k1 pair
                            (case sc_risk_per_trade cfg of None \<Rightarrow> 1 / 100 | Some r \<Rightarrow> r) of
                       (Inl e, k2) \<Rightarrow> (Inl e, k2)
                     | (Inr volume, k2) \<Rightarrow>
                         (case place_order ex k2 pair ''market'' sig volume None
                                 (case sc_leverage cfg of None \<Rightarrow> 1 | Some l \<Rightarrow> l) of
                            (Inl e, k3) \<Rightarrow> (Inl e, k3)
                          | (Inr order, k3) \<Rightarrow> (Inr (Success sig order a), k3))))))"

section \<open>The market-data feed (start_websocket, _handle_websocket_data)\<close>

text \<open>
  Subscripts on JSON values, with Python's errors: a text key on anything but an object and
  a position on a scalar raise \<^verbatim>\<open>TypeError\<close>; a missing key raises \<^verbatim>\<open>KeyError\<close>; a
  position past the end raises \<^verbatim>\<open>IndexError\<close>. When a JSON object repeats a key, the
  last entry wins.
\<close>

fun subscript_key :: "json \<Rightarrow> string \<Rightarrow> py_error + json" where
  "subscript_key (JObj kvs) key = (case map_of (rev kvs) key of None \<Rightarrow> Inl KeyError | Some v \<Rightarrow> Inr v)"
| "subscript_key _ key = Inl TypeError"

fun subscript_pos :: "json \<Rightarrow> nat \<Rightarrow> py_error + json" where
  "subscript_pos (JArr xs) i = (if i < length xs then Inr (xs ! i) else Inl IndexError)"
| "subscript_pos (JStr s) i = (if i < length s then Inr (JStr [s ! i]) else Inl IndexError)"
| "subscript_pos (JObj kvs) i = Inl KeyError"
| "subscript_pos _ i = Inl TypeError"

text \<open>
  \<^verbatim>\<open>Decimal(x)\<close> on a JSON value. The syntax of decimal numerals in text is the decimal
  module's: it is the parameter \<open>dec\<close> (\<open>None\<close> for a text \<^verbatim>\<open>Decimal\<close> rejects).
\<close>

fun to_decimal :: "(string \<Rightarrow> decimal option) \<Rightarrow> json \<Rightarrow> py_error + decimal" where
  "to_decimal dec (JStr s) = (case dec s of None \<Rightarrow> Inl InvalidOperation | Some d \<Rightarrow> Inr d)"
| "to_decimal dec (JNum r) = Inr r"
| "to_decimal dec (JBool b) = Inr (if b then 1 else 0)"
| "to_decimal dec _ = Inl TypeError"

text \<open>A dictionary key must be hashable; \<^verbatim>\<open>True\<close> and \<^verbatim>\<open>1\<close> are the same key.\<close>

fun dict_key :: "json \<Rightarrow> py_error + json" where
  "dict_key (JArr xs) = Inl TypeError"
| "dict_key (JObj kvs) = Inl TypeError"
| "dict_key (JBool b) = Inr (JNum (if b then 1 else 0))"
| "dict_key j = Inr j"

definition ticker_quote :: "(string \<Rightarrow> decimal option) \<Rightarrow> json \<Rightarrow> py_error + quote" where
  "ticker_quote dec ticker_data =
     (case subscript_key ticker_data ''c'' of Inl e \<Rightarrow> Inl e | Inr c \<Rightarrow>
      case subscript_pos c 0 of Inl e \<Rightarrow> Inl e | Inr c0 \<Rightarrow>
      case to_decimal dec c0 of Inl e \<Rightarrow> Inl e | Inr p \<Rightarrow>
      case subscript_key ticker_data ''v'' of Inl e \<Rightarrow> Inl e | Inr v \<Rightarrow>
      case subscript_pos v 1 of Inl e \<Rightarrow> Inl e | Inr v1 \<Rightarrow>
      case to_decimal dec v1 of Inl e \<Rightarrow> Inl e | Inr vol \<Rightarrow>
      Inr \<lparr> q_price = p, q_volume = vol \<rparr>)"

text \<open>
  \<^verbatim>\<open>_handle_websocket_data\<close>. Every exception is caught and printed: the result is the
  printed error, if any, and the state. The class defines neither
  \<^verbatim>\<open>_check_triggered_orders\<close> nor \<^verbatim>\<open>_process_trade_data\<close>: both calls raise
  \<^verbatim>\<open>AttributeError\<close>, the first one after the price cache was written.
\<close>

definition handle_websocket_data ::
  "(string \<Rightarrow> decimal option) \<Rightarrow> KrakenAPI \<Rightarrow> json list \<Rightarrow> py_error option \<times> KrakenAPI" where
  "handle_websocket_data dec k data =
     (if length data < 3 then (None, k)
      else if length data < 4 then (Some IndexError, k)
      else let channel_name = data ! 2; pair = data ! 3 in
        if channel_name = JStr ''ticker'' then
          (case ticker_quote dec (data ! 1) of
             Inl e \<Rightarrow> (Some e, k)
           | Inr q \<Rightarrow>
               (case dict_key pair of
                  Inl e \<Rightarrow> (Some e, k)
                | Inr key \<Rightarrow> (Some AttributeError, k\<lparr>price_cache := (price_cache k)(key \<mapsto> q)\<rparr>)))
        else if channel_name = JStr ''trade'' then (Some AttributeError, k)
        else (None, k))"

text \<open>
  \<^verbatim>\<open>start_websocket\<close> as a machine driven by what the network delivers at each
  \<^verbatim>\<open>await\<close>: the outcome of the connection attempt, of each of the two subscription
  messages, and of each \<^verbatim>\<open>recv\<close> (a text frame, or a failure). A frame is given by what
  \<^verbatim>\<open>json.loads\<close> makes of it. An event that cannot occur at the current point (a frame
  while no connection is open) leaves the state as it is. \<open>fs_log\<close> records what the
  loop does to the connection.
\<close>

datatype frame = Not_JSON | Parsed json

datatype feed_event = Connect_ok | Connect_failed | Send_ok | Send_failed | Received frame | Recv_failed

datatype feed_pc = At_connect | At_send_ticker | At_send_trade | At_recv | Returned

datatype feed_action = Opened | Subscribed string | Closed | Printed py_error | Slept nat

record feed =
  fs_pc :: feed_pc
  fs_api :: KrakenAPI
  fs_log :: "feed_action list"

text \<open>The \<^verbatim>\<open>except Exception\<close> branch of the outer loop: leaving the \<^verbatim>\<open>async with\<close> block
  closes the connection, the error is printed, and the loop sleeps 5 seconds before it
  connects again.\<close>

definition on_exception :: "py_error \<Rightarrow> feed \<Rightarrow> feed" where
  "on_exception e s =
     s\<lparr> fs_pc := At_connect,
        fs_api := (fs_api s)\<lparr>ws_open := False\<rparr>,
        fs_log := fs_log s @ (if ws_open (fs_api s) then [Closed] else []) @ [Printed e, Slept 5] \<rparr>"

definition leave_loops :: "feed \<Rightarrow> feed" where
  "leave_loops s =
     s\<lparr> fs_pc := Returned,
        fs_api := (fs_api s)\<lparr>ws_open := False\<rparr>,
        fs_log := fs_log s @ (if ws_open (fs_api s) then [Closed] else []) \<rparr>"

definition on_message :: "(string \<Rightarrow> decimal option) \<Rightarrow> frame \<Rightarrow> feed \<Rightarrow> feed" where
  "on_message dec m s =
     (case m of
        Not_JSON \<Rightarrow> on_exception JSONDecodeError s
      | Parsed (JArr data) \<Rightarrow>
          (case handle_websocket_data dec (fs_api s) data of
             (None, k1) \<Rightarrow> s\<lparr>fs_api := k1\<rparr>
           | (Some e, k1) \<Rightarrow> s\<lparr>fs_api := k1, fs_log := fs_log s @ [Printed e]\<rparr>)
      | Parsed _ \<Rightarrow> s)"

definition feed_step :: "(string \<Rightarrow> decimal option) \<Rightarrow> feed_event \<Rightarrow> feed \<Rightarrow> feed" where
  "feed_step dec ev s =
     (case fs_pc s of
        Returned \<Rightarrow> s
      | At_connect \<Rightarrow>
          if \<not> running_flag (fs_api s) then leave_loops s
          else (case ev of
                  Connect_ok \<Rightarrow>
                    s\<lparr> fs_pc := At_send_ticker,
                       fs_api := (fs_api s)\<lparr>ws_open := True\<rparr>,
                       fs_log := fs_log s @ [Opened] \<rparr>
                | Connect_failed \<Rightarrow> on_exception ConnectionClosed s
                | _ \<Rightarrow> s)
      | At_send_ticker \<Rightarrow>
          (case ev of
             Send_ok \<Rightarrow> s\<lparr>fs_pc := At_send_trade, fs_log := fs_log s @ [Subscribed ''ticker'']\<rparr>
           | Send_failed \<Rightarrow> on_exception ConnectionClosed s
           | _ \<Rightarrow> s)
      | At_send_trade \<Rightarrow>
          (case ev of
             Send_ok \<Rightarrow> s\<lparr>fs_pc := At_recv, fs_log := fs_log s @ [Subscribed ''trade'']\<rparr>
           | Send_failed \<Rightarrow> on_exception ConnectionClosed s
           | _ \<Rightarrow> s)
      | At_recv \<Rightarrow>
          if \<not> running_flag (fs_api s) then leave_loops s
          else (case ev of
                  Received m \<Rightarrow> on_message dec m s
                | Recv_failed \<Rightarrow> on_exception ConnectionClosed s
                | _ \<Rightarrow> s))"

fun run_feed :: "(string \<Rightarrow> decimal option) \<Rightarrow> feed_event list \<Rightarrow> feed \<Rightarrow> feed" where
  "run_feed dec [] s = s"
| "run_feed dec (ev # evs) s = run_feed dec evs (feed_step dec ev s)"

text \<open>\<^verbatim>\<open>start_websocket\<close> sets \<^verbatim>\<open>_running\<close> and enters the loop. It has returned to its
  caller when the machine is at \<open>Returned\<close>.\<close>

definition start_websocket :: "(string \<Rightarrow> decimal option) \<Rightarrow> feed_event list \<Rightarrow> KrakenAPI \<Rightarrow> feed" where
  "start_websocket dec evs k =
     run_feed dec evs \<lparr> fs_pc = At_connect, fs_api = k\<lparr>running_flag := True\<rparr>, fs_log = [] \<rparr>"

definition close :: "KrakenAPI \<Rightarrow> KrakenAPI" where
  "close k = k\<lparr>running_flag := False, ws_open := False\<rparr>"

section \<open>The trading bot (backend/main.py)\<close>

text \<open>
  The state of a \<^verbatim>\<open>TradingBot\<close>. Dictionaries whose order of keys matters
  (\<^verbatim>\<open>strategies\<close>, iterated by \<^verbatim>\<open>run\<close>) are association lists; \<^verbatim>\<open>performance_metrics\<close>
  is a map from the key to its number. The analysis of the bot is a nested dictionary, a
  JSON value here.
\<close>

record TradingBot =
  kraken :: KrakenAPI
  active_pairs :: "string list"
  strategies :: "(string \<times> strategy_config) list"
  running :: bool
  last_analysis :: "string \<rightharpoonup> json"
  performance_metrics :: "string \<rightharpoonup> decimal"

definition initial_metrics :: "string \<rightharpoonup> decimal" where
  "initial_metrics =
     [''total_trades'' \<mapsto> 0, ''winning_trades'' \<mapsto> 0, ''losing_trades'' \<mapsto> 0,
      ''total_profit'' \<mapsto> 0, ''max_drawdown'' \<mapsto> 0, ''current_drawdown'' \<mapsto> 0,
      ''best_trade'' \<mapsto> 0, ''worst_trade'' \<mapsto> 0, ''average_profit'' \<mapsto> 0]"

definition TradingBot_init :: TradingBot where
  "TradingBot_init =
     \<lparr> kraken = KrakenAPI_init,
       active_pairs = [''XBT/USD'', ''ETH/USD''],
       strategies = [],
       running = False,
       last_analysis = Map.empty,
       performance_metrics = initial_metrics \<rparr>"

definition predefined_strategies :: "(string \<times> strategy_config) list" where
  "predefined_strategies =
     [(''trend_following'',
         \<lparr> sc_type = ''trend_following'', sc_risk_per_trade = Some (1 / 100),
           sc_leverage = Some 3, sc_timeframe = 60 \<rparr>),
      (''mean_reversion'',
         \<lparr> sc_type = ''mean_reversion'', sc_risk_per_trade = Some (8 / 1000),
           sc_leverage = Some 2, sc_timeframe = 30 \<rparr>),
      (''breakout'',
         \<lparr> sc_type = ''breakout'', sc_risk_per_trade = Some (12 / 1000),
           sc_leverage = Some 4, sc_timeframe = 240 \<rparr>)]"

text \<open>
  A coroutine has completed, has raised, or is still suspended at an \<^verbatim>\<open>await\<close> that has
  not returned after the events considered.
\<close>

datatype 'a outcome = Completed 'a | Raised py_error | Suspended

text \<open>The update of the metrics from the saved snapshot (its numbers as \<^verbatim>\<open>Decimal\<close> reads
  them): only keys the dictionary holds are taken over.\<close>

fun load_metrics :: "(string \<times> decimal) list \<Rightarrow> (string \<rightharpoonup> decimal) \<Rightarrow> (string \<rightharpoonup> decimal)" where
  "load_metrics [] m = m"
| "load_metrics ((key, v) # kvs) m =
     (if key \<in> dom m then (load_metrics kvs m)(key \<mapsto> v) else load_metrics kvs m)"

text \<open>
  \<^verbatim>\<open>initialize\<close>: it awaits \<^verbatim>\<open>start_websocket\<close>, and goes on to the balance, the saved
  metrics (\<open>saved\<close>: the content of the snapshot file, \<open>None\<close> when there is none) and
  \<^verbatim>\<open>self.running = True\<close> only once that call has returned.
\<close>

definition initialize ::
  "(string \<Rightarrow> decimal option) \<Rightarrow> feed_event list \<Rightarrow> exchange \<Rightarrow> (string \<times> decimal) list option
     \<Rightarrow> TradingBot \<Rightarrow> unit outcome \<times> TradingBot" where
  "initialize dec evs ex saved tb =
     (let tb1 = tb\<lparr>strategies := predefined_strategies\<rparr>;
          f = start_websocket dec evs (kraken tb1);
          tb2 = tb1\<lparr>kraken := fs_api f\<rparr>
      in if fs_pc f \<noteq> Returned then (Suspended, tb2)
         else (case get_balance ex (kraken tb2) of
                 (Inl e, k1) \<Rightarrow> (Raised e, tb2\<lparr>kraken := k1\<rparr>)
               | (Inr balance, k1) \<Rightarrow>
                   (Completed (),
                    tb2\<lparr> kraken := k1,
                          performance_metrics :=
                            (case saved of
                               None \<Rightarrow> performance_metrics tb2
                             | Some kvs \<Rightarrow> load_metrics (rev kvs) (performance_metrics tb2)),
                          running := True \<rparr>)))"

datatype task = Strategy_task string string | Monitor_task

text \<open>
  \<^verbatim>\<open>run\<close>: the tasks are created after \<^verbatim>\<open>initialize\<close> has completed. The third
  component lists the tasks created. What the tasks do once created is in
  \<open>run_strategy\<close> and \<open>monitor_performance\<close> below; \<^verbatim>\<open>run\<close> is then suspended in
  \<^verbatim>\<open>gather\<close>.
\<close>

definition run ::
  "(string \<Rightarrow> decimal option) \<Rightarrow> feed_event list \<Rightarrow> exchange \<Rightarrow> (string \<times> decimal) list option
     \<Rightarrow> TradingBot \<Rightarrow> unit outcome \<times> TradingBot \<times> task list" where
  "run dec evs ex saved tb =
     (case initialize dec evs ex saved tb of
        (Suspended, b) \<Rightarrow> (Suspended, b, [])
      | (Raised e, b) \<Rightarrow> (Raised e, b\<lparr>running := False, kraken := close (kraken b)\<rparr>, [])
      | (Completed u, b) \<Rightarrow>
          (Suspended, b,
           concat (map (\<lambda>pair. map (\<lambda>(name, cfg). Strategy_task pair name) (strategies b))
                       (active_pairs b))
           @ [Monitor_task]))"

text \<open>
  One iteration of \<^verbatim>\<open>run_strategy\<close>. The methods it calls on the bot
  (\<^verbatim>\<open>analyze_market\<close> with the helpers of its body, \<^verbatim>\<open>generate_signal\<close>,
  \<^verbatim>\<open>prepare_features\<close> inside \<^verbatim>\<open>validate_signal_with_ai\<close>, \<^verbatim>\<open>record_trade\<close>) are not
  defined in the class or rest on \<^verbatim>\<open>KrakenAPI.get_ohlcv\<close>, which is not defined either;
  they are parameters here, so that what follows holds whatever they do. A signal is given
  by its \<^verbatim>\<open>direction\<close>.
\<close>

record bot_hooks =
  h_analyze_market :: "string \<Rightarrow> strategy_config \<Rightarrow> py_error + json"
  h_generate_signal :: "json \<Rightarrow> strategy_config \<Rightarrow> py_error + string option"
  h_validate_signal :: "string \<Rightarrow> string \<Rightarrow> json \<Rightarrow> bool"
  h_record_trade :: "TradingBot \<Rightarrow> string \<Rightarrow> string \<Rightarrow> response \<Rightarrow> json \<Rightarrow> py_error + TradingBot"

definition trade_on_signal ::
  "bot_hooks \<Rightarrow> exchange \<Rightarrow> TradingBot \<Rightarrow> string \<Rightarrow> strategy_config \<Rightarrow> string \<Rightarrow> json
     \<Rightarrow> (py_error + unit) \<times> TradingBot" where
  "trade_on_signal h ex tb pair cfg direction a =
     (case sc_risk_per_trade cfg of
        None \<Rightarrow> (Inl KeyError, tb)
      | Some risk \<Rightarrow>
          (case calculate_optimal_position_size ex (kraken tb) pair risk of
             (Inl e, k1) \<Rightarrow> (Inl e, tb\<lparr>kraken := k1\<rparr>)
           | (Inr volume, k1) \<Rightarrow>
               (case sc_leverage cfg of
                  None \<Rightarrow> (Inl KeyError, tb\<lparr>kraken := k1\<rparr>)
                | Some lev \<Rightarrow>
                    (case place_order ex k1 pair ''market'' direction volume None lev of
                       (Inl e, k2) \<Rightarrow> (Inl e, tb\<lparr>kraken := k2\<rparr>)
                     | (Inr order, k2) \<Rightarrow>
                         (case h_record_trade h (tb\<lparr>kraken := k2\<rparr>) pair direction order a of
                            Inl e \<Rightarrow> (Inl e, tb\<lparr>kraken := k2\<rparr>)
                          | Inr tb' \<Rightarrow> (Inr (), tb'))))))"

definition run_strategy_cycle ::
  "bot_hooks \<Rightarrow> exchange \<Rightarrow> TradingBot \<Rightarrow> string \<Rightarrow> string \<Rightarrow> (py_error + unit) \<times> TradingBot" where
  "run_strategy_cycle h ex tb pair strategy_name =
     (case map_of (strategies tb) strategy_name of
        None \<Rightarrow> (Inl (Strategy_not_found strategy_name), tb)
      | Some cfg \<Rightarrow>
          (case h_analyze_market h pair cfg of
             Inl e \<Rightarrow> (Inl e, tb)
           | Inr a \<Rightarrow>
               (case h_generate_signal h a cfg of
                  Inl e \<Rightarrow> (Inl e, tb)
                | Inr sg \<Rightarrow>
                    (case (case sg of
                             None \<Rightarrow> (Inr (), tb)
                           | Some direction \<Rightarrow>
                               if h_validate_signal h pair direction a
                               then trade_on_signal h ex tb pair cfg direction a
                               else (Inr (), tb)) of
                       (Inl e, tb1) \<Rightarrow> (Inl e, tb1)
                     | (Inr u, tb1) \<Rightarrow>
                         (Inr (), tb1\<lparr>last_analysis := (last_analysis tb1)(pair \<mapsto> a)\<rparr>)))))"

text \<open>The loop of \<^verbatim>\<open>run_strategy\<close>, for at most \<open>n\<close> iterations; the hooks may differ from
  one iteration (numbered from \<open>i\<close>) to the next.\<close>

fun run_strategy ::
  "nat \<Rightarrow> nat \<Rightarrow> (nat \<Rightarrow> bot_hooks) \<Rightarrow> exchange \<Rightarrow> TradingBot \<Rightarrow> string \<Rightarrow> string
     \<Rightarrow> unit outcome \<times> TradingBot" where
  "run_strategy 0 i h ex tb pair strategy_name = (Suspended, tb)"
| "run_strategy (Suc n) i h ex tb pair strategy_name =
     (if \<not> running tb then (Completed (), tb)
      else (case run_strategy_cycle (h i) ex tb pair strategy_name of
              (Inl e, tb1) \<Rightarrow> (Raised e, tb1)
            | (Inr u, tb1) \<Rightarrow> run_strategy n (Suc i) h ex tb1 pair strategy_name))"

text \<open>
  One iteration of \<^verbatim>\<open>monitor_performance\<close>, up to the point where the metrics are
  written to the snapshot (the snapshot file and the log lines are left out).
  \<^verbatim>\<open>performance_metrics.get('peak_equity', current_equity)\<close> reads a key that is looked
  up in the map; no statement of the class stores it.
\<close>

definition update_drawdown :: "(string \<rightharpoonup> decimal) \<Rightarrow> decimal \<Rightarrow> py_error + (string \<rightharpoonup> decimal)" where
  "update_drawdown m current_equity =
     (let peak_equity =
            max current_equity (case m ''peak_equity'' of None \<Rightarrow> current_equity | Some p \<Rightarrow> p)
      in case decimal_div (peak_equity - current_equity) peak_equity of
           Inl e \<Rightarrow> Inl e
         | Inr current_drawdown \<Rightarrow>
             (case m ''max_drawdown'' of
                None \<Rightarrow> Inl KeyError
              | Some md \<Rightarrow>
                  Inr (m(''current_drawdown'' \<mapsto> current_drawdown,
                         ''max_drawdown'' \<mapsto> max md current_drawdown))))"

definition monitor_cycle :: "exchange \<Rightarrow> TradingBot \<Rightarrow> (py_error + unit) \<times> TradingBot" where
  "monitor_cycle ex tb =
     (case get_open_positions ex (kraken tb) of
        (Inl e, k1) \<Rightarrow> (Inl e, tb\<lparr>kraken := k1\<rparr>)
      | (Inr positions, k1) \<Rightarrow>
          (case get_balance ex k1 of
             (Inl e, k2) \<Rightarrow> (Inl e, tb\<lparr>kraken := k2\<rparr>)
           | (Inr bal, k2) \<Rightarrow>
               (case performance_metrics tb ''total_trades'' of
                  None \<Rightarrow> (Inl KeyError, tb\<lparr>kraken := k2\<rparr>)
                | Some total_trades \<Rightarrow>
                    if total_trades > 0 then
                      (case bal of
                         BalanceResult balance \<Rightarrow>
                           (case total_equity_of balance of
                              Inl e \<Rightarrow> (Inl e, tb\<lparr>kraken := k2\<rparr>)
                            | Inr current_equity \<Rightarrow>
                                (case update_drawdown (performance_metrics tb) current_equity of
                                   Inl e \<Rightarrow> (Inl e, tb\<lparr>kraken := k2\<rparr>)
                                 | Inr m \<Rightarrow> (Inr (), tb\<lparr>kraken := k2, performance_metrics := m\<rparr>)))
                       | _ \<Rightarrow> (Inl AttributeError, tb\<lparr>kraken := k2\<rparr>))
                    else (Inr (), tb\<lparr>kraken := k2\<rparr>))))"

fun monitor_performance :: "nat \<Rightarrow> exchange \<Rightarrow> TradingBot \<Rightarrow> unit outcome \<times> TradingBot" where
  "monitor_performance 0 ex tb = (Suspended, tb)"
| "monitor_performance (Suc n) ex tb =
     (if \<not> running tb then (Completed (), tb)
      else (case monitor_cycle ex tb of
              (Inl e, tb1) \<Rightarrow> (Raised e, tb1)
            | (Inr u, tb1) \<Rightarrow> monitor_performance n ex tb1))"

section \<open>Notions used to state the properties\<close>

fun is_AddOrder :: "request \<Rightarrow> bool" where
  "is_AddOrder (AddOrder d) = True"
| "is_AddOrder _ = False"

fun is_Balance :: "request \<Rightarrow> bool" where
  "is_Balance Balance = True"
| "is_Balance _ = False"

text \<open>The orders that have reached the exchange.\<close>

definition orders_sent :: "KrakenAPI \<Rightarrow> request list" where
  "orders_sent k = filter is_AddOrder (requests k)"





text \<open>Concrete inputs: exchanges, candles and states used in the examples below.\<close>

definition exchange_down :: exchange where
  "exchange_down hist req = Inl (BrokerError ''unreachable'')"

definition candle_at :: "rat \<Rightarrow> candle" where
  "candle_at c =
     \<lparr> c_time = 0, c_open = c, c_high = c, c_low = c, c_close = c, c_vwap = c, c_volume = 1, c_count = 1 \<rparr>"

text \<open>An exchange that acknowledges every order, reports a balance of the given amount and
  returns the given candles for every pair.\<close>

definition exchange_with :: "decimal \<Rightarrow> candle list \<Rightarrow> exchange" where
  "exchange_with amount cs hist req =
     (case req of
        AddOrder d \<Rightarrow> Inr (AddOrderResult [''OID-1''])
      | Balance \<Rightarrow> Inr (BalanceResult [(''ZUSD'', Some amount)])
      | OpenPositions \<Rightarrow> Inr (OpenPositionsResult [])
      | OHLC pair timeframe \<Rightarrow> Inr (OHLCResult [(pair, cs)]))"

text \<open>An exchange whose balance is 10000, then 9000, then 9500.\<close>

definition exchange_equities :: exchange where
  "exchange_equities hist req =
     (case req of
        Balance \<Rightarrow>
          Inr (BalanceResult
                 [(''ZUSD'', Some ([10000, 9000, 9500] ! (length (filter is_Balance hist) mod 3)))])
      | OpenPositions \<Rightarrow> Inr (OpenPositionsResult [])
      | _ \<Rightarrow> Inl (BrokerError ''unexpected''))"

definition priced_api :: KrakenAPI where
  "priced_api =
     KrakenAPI_init\<lparr>price_cache := [JStr ''XBT/USD'' \<mapsto> \<lparr> q_price = 30000, q_volume = 1 \<rparr>]\<rparr>"

definition trading_bot :: TradingBot where
  "trading_bot =
     TradingBot_init\<lparr> running := True,
                       strategies := predefined_strategies,
                       performance_metrics := initial_metrics(''total_trades'' \<mapsto> 1) \<rparr>"

text \<open>The metrics after \<open>n\<close> monitoring iterations against that exchange.\<close>

definition metrics_after :: "nat \<Rightarrow> string \<rightharpoonup> decimal" where
  "metrics_after n = performance_metrics (snd (monitor_performance n exchange_equities trading_bot))"

definition rising_candles :: "candle list" where
  "rising_candles = map candle_at [1, 2, 3, 4, 5, 6, 7, 8, 9, 10, 11, 12, 13, 14]"



definition trend_config :: strategy_config where
  "trend_config =
     \<lparr> sc_type = ''trend_following'', sc_risk_per_trade = Some (1 / 100),
       sc_leverage = Some 3, sc_timeframe = 60 \<rparr>"

section \<open>Order placement\<close>

text \<open>
  C1. A call of \<^verbatim>\<open>place_order\<close> with a leverage above the configured maximum (5 after
  construction) fails with the leverage error, and the state is the one before the call:
  no request has been issued and the active-trade table is unchanged.
\<close>

theorem place_order_rejects_excess_leverage:
  "max_leverage k < leverage \<Longrightarrow>
     place_order ex k pair order_type side volume price leverage
       = (Inl (Leverage_exceeds leverage (max_leverage k)), k)
     \<and> requests (snd (place_order ex k pair order_type side volume price leverage)) = requests k
     \<and> active_trades (snd (place_order ex k pair order_type side volume price leverage))
         = active_trades k"
  by (simp add: place_order_def)

theorem place_order_rejects_excess_leverage_witness:
  "max_leverage KrakenAPI_init = 5 \<and> max_leverage KrakenAPI_init < 6 \<and>
   place_order (exchange_with 10000 []) KrakenAPI_init ''XBT/USD'' ''limit'' ''buy'' 1 (Some 30000) 6
     = (Inl (Leverage_exceeds 6 5), KrakenAPI_init)"
  using place_order_rejects_excess_leverage
    [of KrakenAPI_init 6 "exchange_with 10000 []" "''XBT/USD''" "''limit''" "''buy''" 1 "Some 30000"]
  by (simp add: KrakenAPI_init_def)







section \<open>Position sizing\<close>







section \<open>Orders without a price\<close>

lemma place_order_unpriced:
  "place_order ex k pair order_type side volume None leverage
     = (Inl (if max_leverage k < leverage then Leverage_exceeds leverage (max_leverage k)
             else TypeError), k)"
  by (simp add: place_order_def)

lemma sizing_orders:
  "orders_sent (snd (calculate_optimal_position_size ex k pair r)) = orders_sent k"
  by (simp add: calculate_optimal_position_size_def get_balance_def private_request_def orders_sent_def
        split: sum.splits response.splits prod.splits)

lemma analyze_orders:
  "orders_sent (snd (analyze_market ex k pair tf)) = orders_sent k"
  by (simp add: analyze_market_def private_request_def orders_sent_def
        split: sum.splits response.splits prod.splits option.splits)

lemma execute_strategy_orders:
  "orders_sent (snd (execute_strategy ex k pair cfg)) = orders_sent k"
proof -
  obtain r1 k1 where a: "analyze_market ex k pair 60 = (r1, k1)"
    by (cases "analyze_market ex k pair 60")
  have k1: "orders_sent k1 = orders_sent k"
    using analyze_orders [of ex k pair 60] a by simp
  show ?thesis
  proof (cases r1)
    case (Inl e)
    then show ?thesis using a k1 by (simp add: execute_strategy_def)
  next
    case (Inr an)
    obtain r2 k2 where s: "calculate_optimal_position_size ex k1 pair
        (case sc_risk_per_trade cfg of None \<Rightarrow> 1 / 100 | Some r \<Rightarrow> r) = (r2, k2)"
      by (cases "calculate_optimal_position_size ex k1 pair
        (case sc_risk_per_trade cfg of None \<Rightarrow> 1 / 100 | Some r \<Rightarrow> r)")
    have k2: "orders_sent k2 = orders_sent k"
      using sizing_orders [of ex k1 pair "case sc_risk_per_trade cfg of None \<Rightarrow> 1 / 100 | Some r \<Rightarrow> r"]
        s k1
      by simp
    show ?thesis using a Inr s k1 k2
      by (simp add: execute_strategy_def place_order_unpriced split: option.splits sum.splits)
  qed
qed

lemma execute_strategy_no_success:
  "fst (execute_strategy ex k pair cfg) \<noteq> Inr (Success sg order a)"
  by (simp add: execute_strategy_def place_order_unpriced
        split: option.splits sum.splits prod.splits)

lemma trade_on_signal_fails:
  "\<exists>e. fst (trade_on_signal h ex tb pair cfg direction a) = Inl e"
  by (simp add: trade_on_signal_def place_order_unpriced
        split: option.splits sum.splits prod.splits)

lemma trade_on_signal_orders:
  "orders_sent (kraken (snd (trade_on_signal h ex tb pair cfg direction a))) = orders_sent (kraken tb)"
proof (cases "sc_risk_per_trade cfg")
  case None
  then show ?thesis by (simp add: trade_on_signal_def)
next
  case (Some risk)
  obtain r1 k1 where s: "calculate_optimal_position_size ex (kraken tb) pair risk = (r1, k1)"
    by (cases "calculate_optimal_position_size ex (kraken tb) pair risk")
  have k1: "orders_sent k1 = orders_sent (kraken tb)"
    using sizing_orders [of ex "kraken tb" pair risk] s by simp
  show ?thesis using Some s k1
    by (simp add: trade_on_signal_def place_order_unpriced split: option.splits sum.splits)
qed

lemma run_strategy_cycle_orders:
  "orders_sent (kraken (snd (run_strategy_cycle h ex tb pair name))) = orders_sent (kraken tb)"
proof -
  have *: "\<And>cfg direction a r tb1. trade_on_signal h ex tb pair cfg direction a = (r, tb1)
     \<Longrightarrow> orders_sent (kraken tb1) = orders_sent (kraken tb)"
    using trade_on_signal_orders by (metis snd_conv)
  show ?thesis
    by (auto simp add: run_strategy_cycle_def dest: *
          split: option.splits sum.splits prod.splits if_splits)
qed

lemma run_strategy_orders:
  "orders_sent (kraken (snd (run_strategy n i h ex tb pair name))) = orders_sent (kraken tb)"
proof (induction n arbitrary: i tb)
  case 0
  show ?case by simp
next
  case (Suc n)
  obtain r tb1 where c: "run_strategy_cycle (h i) ex tb pair name = (r, tb1)"
    by (cases "run_strategy_cycle (h i) ex tb pair name")
  have tb1: "orders_sent (kraken tb1) = orders_sent (kraken tb)"
    using run_strategy_cycle_orders [of "h i" ex tb pair name] c by simp
  show ?case using c tb1 Suc.IH [of "Suc i" tb1]
    by (simp split: sum.splits)
qed

text \<open>
  C4, as the claim states it, fails: a market order without a price and with leverage 6
  raises the leverage error, not \<^verbatim>\<open>TypeError\<close>.
\<close>

theorem unpriced_order_counterexample:
  "place_order exchange_down KrakenAPI_init ''XBT/USD'' ''market'' ''buy'' 1 None 6
     = (Inl (Leverage_exceeds 6 5), KrakenAPI_init)"
  by (simp add: place_order_def KrakenAPI_init_def)

text \<open>
  C4, amended. A call of \<^verbatim>\<open>place_order\<close> without a price and with a leverage within the
  limit raises \<^verbatim>\<open>TypeError\<close> and leaves the state as it was, so no request is made.
  Both orchestration paths place their orders without a price: \<^verbatim>\<open>execute_strategy\<close>
  never returns a success and sends no order to the exchange; in \<^verbatim>\<open>run_strategy\<close> the
  step that trades on a signal always raises, and no number of iterations sends an order,
  whatever the analysis, signal, validation and recording methods do.
\<close>

theorem unpriced_order_never_submitted:
  "(leverage \<le> max_leverage k \<longrightarrow>
      place_order ex k pair order_type side volume None leverage = (Inl TypeError, k))
   \<and> fst (execute_strategy ex k pair cfg) \<noteq> Inr (Success sg order a)
   \<and> orders_sent (snd (execute_strategy ex k pair cfg)) = orders_sent k
   \<and> (\<exists>e. fst (trade_on_signal hk ex tb pair cfg direction an) = Inl e)
   \<and> orders_sent (kraken (snd (run_strategy n i h ex tb pair name))) = orders_sent (kraken tb)"
  using place_order_unpriced [of ex k pair order_type side volume leverage]
    execute_strategy_no_success [of ex k pair cfg sg order a]
    execute_strategy_orders [of ex k pair cfg]
    trade_on_signal_fails [of hk ex tb pair cfg direction an]
    run_strategy_orders [of n i h ex tb pair name]
  by simp

theorem unpriced_order_never_submitted_witness:
  "(3::int) \<le> max_leverage KrakenAPI_init
   \<and> place_order (exchange_with 10000 []) KrakenAPI_init ''XBT/USD'' ''market'' ''buy'' 1000 None 3
       = (Inl TypeError, KrakenAPI_init)
   \<and> orders_sent (snd (execute_strategy (exchange_with 10000 rising_candles) priced_api
                          ''XBT/USD'' trend_config)) = []"
  using unpriced_order_never_submitted
    [of 3 KrakenAPI_init "exchange_with 10000 []" "''XBT/USD''" "''market''" "''buy''" 1000]
    unpriced_order_never_submitted
    [of 3 priced_api "exchange_with 10000 rising_candles" "''XBT/USD''" _ _ _ trend_config]
  by (simp add: KrakenAPI_init_def priced_api_def orders_sent_def)

section \<open>Drawdown monitoring\<close>

text \<open>Without a stored peak the drawdown computed is 0, and the update stores no peak.\<close>

lemma update_drawdown_without_peak:
  assumes "m ''peak_equity'' = None" and "current_equity \<noteq> 0" and "m ''max_drawdown'' = Some md"
  shows "update_drawdown m current_equity
           = Inr (m(''current_drawdown'' \<mapsto> 0, ''max_drawdown'' \<mapsto> max md 0))"
  using assms by (simp add: update_drawdown_def decimal_div_def)

lemma update_drawdown_keeps_peak_unset:
  assumes "m ''peak_equity'' = None" and "update_drawdown m current_equity = Inr m'"
  shows "m' ''peak_equity'' = None"
  using assms by (auto simp add: update_drawdown_def Let_def split: sum.splits option.splits)

text \<open>
  C7. The code at the input of the claim: a bot with one recorded trade, monitored while
  the balance is 10000, then 9000, then 9500. The three balance requests are made; the
  current drawdown is 0 after each iteration, the maximal drawdown is 0 after the third,
  and no peak equity is stored. (The claim asks for 0.10, then 0.05, and a maximum of 0.10.)
\<close>

theorem drawdown_stays_zero:
  "metrics_after 1 ''current_drawdown'' = Some 0
   \<and> metrics_after 2 ''current_drawdown'' = Some 0
   \<and> metrics_after 3 ''current_drawdown'' = Some 0
   \<and> metrics_after 3 ''max_drawdown'' = Some 0
   \<and> metrics_after 3 ''peak_equity'' = None
   \<and> filter is_Balance (requests (kraken (snd (monitor_performance 3 exchange_equities trading_bot))))
       = [Balance, Balance, Balance]"
  by code_simp

section \<open>The feed loop\<close>

lemma handle_running:
  "running_flag (snd (handle_websocket_data dec k data)) = running_flag k"
  by (simp add: handle_websocket_data_def Let_def split: sum.splits)

lemma handle_ws_open:
  "ws_open (snd (handle_websocket_data dec k data)) = ws_open k"
  by (simp add: handle_websocket_data_def Let_def split: sum.splits)

text \<open>A frame that is a JSON list, well-formed or not, leaves the connection as it is.\<close>

lemma list_message_keeps_connection:
  assumes "fs_pc s = At_recv" and "running_flag (fs_api s)"
  shows "fs_pc (feed_step dec (Received (Parsed (JArr data))) s) = At_recv
       \<and> ws_open (fs_api (feed_step dec (Received (Parsed (JArr data))) s)) = ws_open (fs_api s)"
proof -
  obtain e k1 where h: "handle_websocket_data dec (fs_api s) data = (e, k1)"
    by (cases "handle_websocket_data dec (fs_api s) data")
  have "ws_open k1 = ws_open (fs_api s)"
    using handle_ws_open [of dec "fs_api s" data] h by simp
  then show ?thesis
    using assms h by (simp add: feed_step_def on_message_def split: option.splits)
qed

text \<open>
  C8. The code at the input of the claim: on an open, subscribed connection a frame arrives
  that is not JSON. The connection is closed, the error is printed and the loop sleeps 5
  seconds before it connects and subscribes again; the loop is back at the connection
  attempt, not at the next \<^verbatim>\<open>recv\<close>. (The claim asks for the connection to stay open.)
\<close>

theorem invalid_json_drops_connection:
  "start_websocket dec [Connect_ok, Send_ok, Send_ok, Received Not_JSON] KrakenAPI_init
     = \<lparr> fs_pc = At_connect,
         fs_api = KrakenAPI_init\<lparr>running_flag := True\<rparr>,
         fs_log = [Opened, Subscribed ''ticker'', Subscribed ''trade'', Closed,
                   Printed JSONDecodeError, Slept 5] \<rparr>"
  by (simp add: start_websocket_def feed_step_def on_message_def on_exception_def KrakenAPI_init_def)

lemma on_message_stays:
  assumes "running_flag (fs_api s)" and "fs_pc s = At_recv"
  shows "running_flag (fs_api (on_message dec m s)) \<and> fs_pc (on_message dec m s) \<noteq> Returned"
proof (cases m)
  case Not_JSON
  then show ?thesis using assms by (simp add: on_message_def on_exception_def)
next
  case (Parsed j)
  show ?thesis
  proof (cases j)
    case (JArr data)
    obtain e k1 where h: "handle_websocket_data dec (fs_api s) data = (e, k1)"
      by (cases "handle_websocket_data dec (fs_api s) data")
    have "running_flag k1"
      using handle_running [of dec "fs_api s" data] h assms(1) by simp
    then show ?thesis
      using Parsed JArr h assms(2) by (simp add: on_message_def split: option.splits)
  qed (use Parsed assms in \<open>simp_all add: on_message_def\<close>)
qed

lemma feed_step_stays:
  assumes "running_flag (fs_api s)" and "fs_pc s \<noteq> Returned"
  shows "running_flag (fs_api (feed_step dec ev s)) \<and> fs_pc (feed_step dec ev s) \<noteq> Returned"
proof (cases "fs_pc s")
  case At_recv
  then show ?thesis using assms on_message_stays [of s dec]
    by (cases ev) (simp_all add: feed_step_def on_exception_def)
next
  case Returned
  then show ?thesis using assms by simp
qed (use assms in \<open>cases ev; simp add: feed_step_def on_exception_def\<close>)+

lemma run_feed_stays:
  "running_flag (fs_api s) \<Longrightarrow> fs_pc s \<noteq> Returned \<Longrightarrow>
     running_flag (fs_api (run_feed dec evs s)) \<and> fs_pc (run_feed dec evs s) \<noteq> Returned"
proof (induction evs arbitrary: s)
  case Nil
  then show ?case by simp
next
  case (Cons ev evs)
  then show ?case using feed_step_stays [of s dec ev] by simp
qed

lemma start_websocket_never_returns:
  "fs_pc (start_websocket dec evs k) \<noteq> Returned"
  using run_feed_stays
    [of "\<lparr> fs_pc = At_connect, fs_api = k\<lparr>running_flag := True\<rparr>, fs_log = [] \<rparr>" dec evs]
  by (simp add: start_websocket_def)

text \<open>
  C10. Whatever the network delivers, and however much of it, \<^verbatim>\<open>start_websocket\<close> has
  not returned: the flag it sets stays set inside the loop. So \<^verbatim>\<open>initialize\<close>, which
  awaits it, does not complete and leaves \<^verbatim>\<open>running\<close> as it was (false after
  construction), and \<^verbatim>\<open>run\<close> stays suspended in \<^verbatim>\<open>initialize\<close> with no task created.
\<close>

theorem initialize_never_completes:
  "fs_pc (start_websocket dec evs k) \<noteq> Returned
   \<and> fst (initialize dec evs ex saved tb) = Suspended
   \<and> running (snd (initialize dec evs ex saved tb)) = running tb
   \<and> fst (run dec evs ex saved tb) = Suspended
   \<and> snd (snd (run dec evs ex saved tb)) = []
   \<and> running (fst (snd (run dec evs ex saved tb))) = running tb"
  using start_websocket_never_returns [of dec evs k]
    start_websocket_never_returns [of dec evs "kraken tb"]
  by (simp add: initialize_def run_def Let_def)

theorem initialize_never_completes_witness:
  "fst (run Map.empty [Connect_ok, Send_ok, Send_ok, Recv_failed, Connect_failed]
          exchange_down None TradingBot_init) = Suspended
   \<and> snd (snd (run Map.empty [Connect_ok, Send_ok, Send_ok, Recv_failed, Connect_failed]
                 exchange_down None TradingBot_init)) = []
   \<and> running (fst (snd (run Map.empty [Connect_ok, Send_ok, Send_ok, Recv_failed, Connect_failed]
                          exchange_down None TradingBot_init))) = False"
  using initialize_never_completes
    [of Map.empty "[Connect_ok, Send_ok, Send_ok, Recv_failed, Connect_failed]" KrakenAPI_init
        exchange_down None TradingBot_init]
  by (simp add: TradingBot_init_def)

section \<open>Indicators\<close>































section \<open>Short candle histories\<close>






end
